theory Spec2Isabelle
  imports Main "HOL-Library.Sublist"
begin

section \<open>JavaScript values\<close>

text \<open>
  The service in \<^verbatim>\<open>src/index.js\<close> handles values that come out of \<^verbatim>\<open>JSON.parse\<close>
  (the request body parsed by \<^verbatim>\<open>express.json()\<close>, the bodies of the remote responses)
  and \<^verbatim>\<open>undefined\<close> for a property that is not there.

  \<^item> A string is a \<^typ>\<open>string\<close>: the sequence of the UTF-8 bytes of a well-formed
    text. Every string the program itself writes is ASCII, apart from four symbols in
    log and chat texts, which are given by their bytes.
  \<^item> A number is given by the text JavaScript prints for it (\<^verbatim>\<open>String(x)\<close>, such as
    \<^verbatim>\<open>42\<close>, \<^verbatim>\<open>-0.5\<close>, \<^verbatim>\<open>1e+21\<close>, \<^verbatim>\<open>Infinity\<close>), which determines the number up to
    the sign of zero. The program never computes with a number: it tests numbers for
    truthiness and prints them, and both are read off that text.
  \<^item> An object is the list of its own properties in enumeration order (keys distinct);
    an array is the list of its elements. Parsed values hold no functions.
\<close>

datatype jsval =
    JUndefined
  | JNull
  | JBool bool
  | JNum string
  | JStr string
  | JArr "jsval list"
  | JObj "(string \<times> jsval) list"

abbreviation (input) NL :: char where "NL \<equiv> CHR 0x0A"
abbreviation (input) DQ :: char where "DQ \<equiv> CHR 0x22"
abbreviation (input) BSL :: char where "BSL \<equiv> CHR 0x5C"
abbreviation (input) SQ :: char where "SQ \<equiv> CHR 0x27"

text \<open>Truthiness (\<^verbatim>\<open>!x\<close>, \<^verbatim>\<open>a || b\<close>): of the numbers, zero and NaN are falsy.\<close>

fun truthy :: "jsval \<Rightarrow> bool" where
  "truthy JUndefined = False"
| "truthy JNull = False"
| "truthy (JBool b) = b"
| "truthy (JNum r) = (r \<noteq> ''0'' \<and> r \<noteq> ''NaN'')"
| "truthy (JStr s) = (s \<noteq> [])"
| "truthy (JArr xs) = True"
| "truthy (JObj ps) = True"

definition or_else :: "jsval \<Rightarrow> jsval \<Rightarrow> jsval" where
  "or_else a b = (if truthy a then a else b)"

text \<open>A default in a destructuring pattern applies when the property is \<^verbatim>\<open>undefined\<close>.\<close>

definition with_default :: "jsval \<Rightarrow> jsval \<Rightarrow> jsval" where
  "with_default v d = (if v = JUndefined then d else v)"

fun nullish :: "jsval \<Rightarrow> bool" where
  "nullish JUndefined = True"
| "nullish JNull = True"
| "nullish v = False"

text \<open>The characters of a value that is known to be a string (the receiver of a string method).\<close>

fun string_value :: "jsval \<Rightarrow> string" where
  "string_value (JStr s) = s"
| "string_value v = []"

subsection \<open>Errors\<close>

text \<open>
  Everything the program throws or has thrown at it is an \<^verbatim>\<open>Error\<close> object; the
  \<^verbatim>\<open>catch\<close> of the route reads its \<^verbatim>\<open>message\<close>. The texts of the errors the runtime
  throws are those of V8.
\<close>

datatype js_error =
    Error string
  | TypeError string
  | FetchError string

fun message :: "js_error \<Rightarrow> string" where
  "message (Error m) = m"
| "message (TypeError m) = m"
| "message (FetchError m) = m"

subsection \<open>Property access\<close>

text \<open>
  \<open>get_prop v k\<close> is \<^verbatim>\<open>v.k\<close> for a value \<open>v\<close> that is neither \<^verbatim>\<open>undefined\<close> nor
  \<^verbatim>\<open>null\<close>, and for the property names the program reads (\<^verbatim>\<open>action\<close>, \<^verbatim>\<open>target\<close>,
  \<^verbatim>\<open>severity\<close>, \<^verbatim>\<open>threat\<close>, \<^verbatim>\<open>success\<close>, \<^verbatim>\<open>errors\<close>, \<^verbatim>\<open>message\<close>, \<^verbatim>\<open>result\<close>,
  \<^verbatim>\<open>id\<close>, \<^verbatim>\<open>key\<close>): none of them is inherited from a prototype, so only an object
  can have one. Reading a property of \<^verbatim>\<open>undefined\<close> or \<^verbatim>\<open>null\<close> throws; \<open>member\<close> is
  the read with that check, the optional chain \<^verbatim>\<open>v?.k\<close> gives \<^verbatim>\<open>undefined\<close> instead.

  \<open>first_element v\<close> is \<^verbatim>\<open>v[0]\<close>, the only index the program reads: the first element
  of an array, the property \<^verbatim>\<open>0\<close> of an object, the first character of a string. (Of a
  character outside the Basic Multilingual Plane JavaScript gives the first half; the
  program reads only the property \<^verbatim>\<open>message\<close> of the result, which no string has.)
\<close>

definition lookup_prop :: "(string \<times> jsval) list \<Rightarrow> string \<Rightarrow> jsval" where
  "lookup_prop ps k = (case map_of ps k of None \<Rightarrow> JUndefined | Some v \<Rightarrow> v)"

fun get_prop :: "jsval \<Rightarrow> string \<Rightarrow> jsval" where
  "get_prop (JObj ps) k = lookup_prop ps k"
| "get_prop v k = JUndefined"

definition utf8_length :: "char \<Rightarrow> nat" where
  "utf8_length c =
     (let n = (of_char c :: nat) in
      if n < 128 then 1 else if n < 224 then 2 else if n < 240 then 3 else 4)"

fun first_element :: "jsval \<Rightarrow> jsval" where
  "first_element (JArr xs) = (case xs of [] \<Rightarrow> JUndefined | x # rest \<Rightarrow> x)"
| "first_element (JStr s) = (case s of [] \<Rightarrow> JUndefined | c # rest \<Rightarrow> JStr (take (utf8_length c) s))"
| "first_element (JObj ps) = lookup_prop ps ''0''"
| "first_element v = JUndefined"

definition opt_prop :: "jsval \<Rightarrow> string \<Rightarrow> jsval" where
  "opt_prop v k = (if nullish v then JUndefined else get_prop v k)"

definition opt_first_element :: "jsval \<Rightarrow> jsval" where
  "opt_first_element v = (if nullish v then JUndefined else first_element v)"

definition cannot_read :: "jsval \<Rightarrow> string \<Rightarrow> js_error" where
  "cannot_read v k =
     TypeError (''Cannot read properties of '' @ (if v = JNull then ''null'' else ''undefined'')
                @ '' (reading '' @ [SQ] @ k @ [SQ] @ '')'')"

definition member :: "jsval \<Rightarrow> string \<Rightarrow> js_error + jsval" where
  "member v k = (if nullish v then Inl (cannot_read v k) else Inr (get_prop v k))"

subsection \<open>Conversion to string\<close>

text \<open>
  Template literals and \<^verbatim>\<open>new Error(x)\<close> convert with \<^verbatim>\<open>String(x)\<close>, which can throw.
  An object is converted by its \<^verbatim>\<open>toString\<close> method: a parsed object inherits the one
  that gives \<^verbatim>\<open>[object Object]\<close>, unless it has a property \<^verbatim>\<open>toString\<close> of its own,
  which (being parsed data) is not callable; then neither it nor the inherited
  \<^verbatim>\<open>valueOf\<close> gives a primitive and the conversion throws a \<^verbatim>\<open>TypeError\<close>. An array
  prints its elements joined by commas, \<^verbatim>\<open>null\<close> and \<^verbatim>\<open>undefined\<close> elements as
  nothing, and throws when an element does.

  \<open>collect\<close> evaluates its parts from left to right up to the first that throws;
  \<open>template\<close> is a template literal, given by its parts in order.
\<close>

definition cannot_convert :: js_error where
  "cannot_convert = TypeError ''Cannot convert object to primitive value''"

fun join :: "string \<Rightarrow> string list \<Rightarrow> string" where
  "join sep [] = []"
| "join sep [x] = x"
| "join sep (x # y # ys) = x @ sep @ join sep (y # ys)"

fun collect :: "(js_error + 'a) list \<Rightarrow> js_error + 'a list" where
  "collect [] = Inr []"
| "collect (Inl e # rs) = Inl e"
| "collect (Inr x # rs) = (case collect rs of Inl e \<Rightarrow> Inl e | Inr xs \<Rightarrow> Inr (x # xs))"

fun to_string :: "jsval \<Rightarrow> js_error + string" where
  "to_string JUndefined = Inr ''undefined''"
| "to_string JNull = Inr ''null''"
| "to_string (JBool b) = Inr (if b then ''true'' else ''false'')"
| "to_string (JNum r) = Inr r"
| "to_string (JStr s) = Inr s"
| "to_string (JArr xs) =
     (case collect (map (\<lambda>x. if nullish x then Inr [] else to_string x) xs) of
        Inl e \<Rightarrow> Inl e
      | Inr ss \<Rightarrow> Inr (join '','' ss))"
| "to_string (JObj ps) =
     (if ''toString'' \<in> set (map fst ps) then Inl cannot_convert else Inr ''[object Object]'')"

definition template :: "(js_error + string) list \<Rightarrow> js_error + string" where
  "template parts = (case collect parts of Inl e \<Rightarrow> Inl e | Inr ss \<Rightarrow> Inr (concat ss))"

text \<open>
  What \<^verbatim>\<open>throw new Error(x)\<close> throws, for \<open>x\<close> other than \<^verbatim>\<open>undefined\<close>: the error
  with the text of \<open>x\<close> as message, or the error of converting \<open>x\<close>.
\<close>

definition new_Error :: "jsval \<Rightarrow> js_error" where
  "new_Error x = (case to_string x of Inl e \<Rightarrow> e | Inr s \<Rightarrow> Error s)"

subsection \<open>String methods\<close>

text \<open>
  \<^verbatim>\<open>replaceAll("_", " ")\<close> and \<^verbatim>\<open>toUpperCase()\<close> are applied to the action name only,
  in the branch where it is one of three ASCII names; \<open>toUpperCase\<close> maps the ASCII
  letters (clearing the bit of value 32) and leaves every other byte.
\<close>

definition replaceAll_char :: "char \<Rightarrow> char \<Rightarrow> string \<Rightarrow> string" where
  "replaceAll_char a b s = map (\<lambda>c. if c = a then b else c) s"

definition upper_char :: "char \<Rightarrow> char" where
  "upper_char c =
     (let n = (of_char c :: nat) in
      if 97 \<le> n \<and> n \<le> 122
      then (case c of Char b0 b1 b2 b3 b4 b5 b6 b7 \<Rightarrow> Char b0 b1 b2 b3 b4 False b6 b7)
      else c)"

definition toUpperCase :: "string \<Rightarrow> string" where
  "toUpperCase s = map upper_char s"

subsection \<open>JSON.stringify\<close>

definition hex_digit :: "nat \<Rightarrow> char" where
  "hex_digit d = (if d < 10 then char_of (48 + d) else char_of (87 + d))"

definition quote_char :: "char \<Rightarrow> string" where
  "quote_char c =
     (let n = (of_char c :: nat) in
      if n = 8 then [BSL, CHR ''b'']
      else if n = 9 then [BSL, CHR ''t'']
      else if n = 10 then [BSL, CHR ''n'']
      else if n = 12 then [BSL, CHR ''f'']
      else if n = 13 then [BSL, CHR ''r'']
      else if c = DQ then [BSL, DQ]
      else if c = BSL then [BSL, BSL]
      else if n < 32 then [BSL, CHR ''u'', CHR ''0'', CHR ''0'', hex_digit (n div 16), hex_digit (n mod 16)]
      else [c])"

definition quote :: "string \<Rightarrow> string" where
  "quote s = [DQ] @ concat (map quote_char s) @ [DQ]"

text \<open>
  \<open>serialize gap indent v\<close> is the text of \<open>v\<close> inside a document indented by \<open>gap\<close>
  per level, at current indentation \<open>indent\<close>. A number that is not finite prints as
  \<^verbatim>\<open>null\<close>. A property whose value is \<^verbatim>\<open>undefined\<close> is left out of an object; an
  \<^verbatim>\<open>undefined\<close> array element prints as \<^verbatim>\<open>null\<close>. No parsed value has a callable
  \<^verbatim>\<open>toJSON\<close>, so nothing here throws. \<open>JSON_stringify gap v\<close> is
  \<^verbatim>\<open>JSON.stringify(v, null, gap)\<close>, which is \<^verbatim>\<open>undefined\<close> (here \<open>None\<close>) for
  \<^verbatim>\<open>undefined\<close>.
\<close>

fun serialize :: "string \<Rightarrow> string \<Rightarrow> jsval \<Rightarrow> string" where
  "serialize gap indent JUndefined = ''null''"
| "serialize gap indent JNull = ''null''"
| "serialize gap indent (JBool b) = (if b then ''true'' else ''false'')"
| "serialize gap indent (JNum r) =
     (if r = ''Infinity'' \<or> r = ''-Infinity'' \<or> r = ''NaN'' then ''null'' else r)"
| "serialize gap indent (JStr s) = quote s"
| "serialize gap indent (JArr xs) =
     (let partial = map (serialize gap (indent @ gap)) xs in
      if partial = [] then ''[]''
      else if gap = [] then ''['' @ join '','' partial @ '']''
      else ''['' @ [NL] @ (indent @ gap) @ join ('','' @ [NL] @ (indent @ gap)) partial
            @ [NL] @ indent @ '']'')"
| "serialize gap indent (JObj ps) =
     (let partial = map (\<lambda>(k, v). quote k @ '':'' @ (if gap = [] then [] else '' '')
                                    @ serialize gap (indent @ gap) v)
                        (filter (\<lambda>(k, v). v \<noteq> JUndefined) ps) in
      if partial = [] then ''{}''
      else if gap = [] then ''{'' @ join '','' partial @ ''}''
      else ''{'' @ [NL] @ (indent @ gap) @ join ('','' @ [NL] @ (indent @ gap)) partial
            @ [NL] @ indent @ ''}'')"

definition JSON_stringify :: "string \<Rightarrow> jsval \<Rightarrow> string option" where
  "JSON_stringify gap v = (if v = JUndefined then None else Some (serialize gap [] v))"

definition template_opt :: "string option \<Rightarrow> string" where
  "template_opt r = (case r of None \<Rightarrow> ''undefined'' | Some s \<Rightarrow> s)"

subsection \<open>Base64\<close>

definition b64_char :: "nat \<Rightarrow> char" where
  "b64_char n =
     (if n < 26 then char_of (65 + n)
      else if n < 52 then char_of (71 + n)
      else if n < 62 then char_of (n - 4)
      else if n = 62 then CHR ''+'' else CHR ''/'')"

fun base64_bytes :: "nat list \<Rightarrow> string" where
  "base64_bytes [] = []"
| "base64_bytes [a] = [b64_char (a div 4), b64_char ((a mod 4) * 16), CHR ''='', CHR ''='']"
| "base64_bytes [a, b] =
     [b64_char (a div 4), b64_char ((a mod 4) * 16 + b div 16), b64_char ((b mod 16) * 4), CHR ''='']"
| "base64_bytes (a # b # c # rest) =
     [b64_char (a div 4), b64_char ((a mod 4) * 16 + b div 16),
      b64_char ((b mod 16) * 4 + c div 64), b64_char (c mod 64)] @ base64_bytes rest"

definition base64 :: "string \<Rightarrow> string" where
  "base64 s = base64_bytes (map of_char s)"

section \<open>The world of one request\<close>

text \<open>
  One request is served against: the process environment; the remote systems, given
  by what \<^verbatim>\<open>fetch\<close> settles to for each outbound request; and the clock, given by
  the value of the \<open>k\<close>-th evaluation of \<^verbatim>\<open>new Date().toISOString()\<close>.

  \<^verbatim>\<open>fetch\<close> (node-fetch) rejects on a network-level failure only; any HTTP response,
  whatever its status, resolves. \<^verbatim>\<open>res.ok\<close> is a status from 200 to 299, and
  \<^verbatim>\<open>res.json()\<close> rejects when the body is not JSON.

  The four tracker variables are read when the module is loaded and the others at each
  call; within one request both are the same environment. A variable is a string or
  \<^verbatim>\<open>undefined\<close>: \<open>getenv\<close> is its value and \<open>env_text\<close> its text inside a template.
\<close>

record http_request =
  url :: string
  http_method :: string
  headers :: "(string \<times> string) list"
  body :: "string option"

record fetch_response =
  res_status :: nat
  res_json :: "js_error + jsval"

datatype fetch_outcome = Rejects js_error | Resolves fetch_response

definition res_ok :: "fetch_response \<Rightarrow> bool" where
  "res_ok r = (200 \<le> res_status r \<and> res_status r \<le> 299)"

record world =
  env :: "string \<Rightarrow> string option"
  fetch :: "http_request \<Rightarrow> fetch_outcome"
  clock :: "nat \<Rightarrow> string"

definition getenv :: "world \<Rightarrow> string \<Rightarrow> jsval" where
  "getenv w k = (case env w k of None \<Rightarrow> JUndefined | Some s \<Rightarrow> JStr s)"

definition env_text :: "world \<Rightarrow> string \<Rightarrow> string" where
  "env_text w k = (case env w k of None \<Rightarrow> ''undefined'' | Some s \<Rightarrow> s)"

text \<open>
  What a function does besides returning: the calls of \<^verbatim>\<open>fetch\<close> it makes and the
  lines it writes with \<^verbatim>\<open>console.error\<close>, in order. An \<^verbatim>\<open>async\<close> function gives its
  effects and either the error it throws or its value.
\<close>

datatype effect =
    Fetch http_request
  | ConsoleError string jsval

type_synonym 'a outcome = "effect list \<times> (js_error + 'a)"

section \<open>Ticketing client\<close>

record ticket =
  summary :: string
  description :: string
  priority :: jsval

definition jira_payload :: "jsval \<Rightarrow> string \<Rightarrow> string \<Rightarrow> jsval \<Rightarrow> jsval" where
  "jira_payload project_key summ descr prio =
     JObj [(''fields'', JObj
       [(''project'', JObj [(''key'', project_key)]),
        (''summary'', JStr summ),
        (''description'', JStr descr),
        (''issuetype'', JObj [(''name'', JStr ''Task'')]),
        (''priority'', JObj [(''name'', prio)]),
        (''labels'', JArr [JStr ''threatpilot'', JStr ''automated''])])]"

definition jira_request :: "world \<Rightarrow> ticket \<Rightarrow> http_request" where
  "jira_request w t =
     (let prio = with_default (priority t) (JStr ''Medium'');
          auth = base64 (env_text w ''JIRA_MAIL'' @ '':'' @ env_text w ''JIRA_API'')
      in \<lparr>url = env_text w ''JIRA_BASE'' @ ''/rest/api/3/issue'',
          http_method = ''POST'',
          headers = [(''Authorization'', ''Basic '' @ auth), (''Content-Type'', ''application/json'')],
          body = JSON_stringify [] (jira_payload (getenv w ''JIRA_PROJECT'') (summary t) (description t) prio)\<rparr>)"

definition createJiraTicket :: "world \<Rightarrow> ticket \<Rightarrow> jsval outcome" where
  "createJiraTicket w t =
     (if \<not> truthy (getenv w ''JIRA_BASE'') \<or> \<not> truthy (getenv w ''JIRA_MAIL'')
         \<or> \<not> truthy (getenv w ''JIRA_API'') \<or> \<not> truthy (getenv w ''JIRA_PROJECT'')
      then ([], Inl (Error ''Jira environment variables missing''))
      else
        (case fetch w (jira_request w t) of
           Rejects e \<Rightarrow> ([Fetch (jira_request w t)], Inl e)
         | Resolves res \<Rightarrow>
             (case res_json res of
                Inl e \<Rightarrow> ([Fetch (jira_request w t)], Inl e)
              | Inr data \<Rightarrow>
                  if \<not> res_ok res
                  then ([Fetch (jira_request w t), ConsoleError ''Jira error:'' data],
                        Inl (Error ''Failed to create Jira ticket''))
                  else ([Fetch (jira_request w t)], member data ''key''))))"

section \<open>Notification client\<close>

text \<open>
  The message is built before the call: its two section texts are template literals
  over fields of the payload, evaluated in order, and either can throw.
\<close>

definition slack_message :: "jsval \<Rightarrow> string \<Rightarrow> js_error + jsval" where
  "slack_message p ts =
     (case template [Inr ''*Threat:* '', to_string (or_else (get_prop p ''threat'') (JStr ''Unknown'')),
                     Inr [NL], Inr ''*Severity:* '',
                     to_string (or_else (get_prop p ''severity'') (JStr ''Medium''))] of
        Inl e \<Rightarrow> Inl e
      | Inr text1 \<Rightarrow>
          (case template [Inr ''*Target:* '', to_string (or_else (get_prop p ''target'') (JStr ''N/A'')),
                          Inr [NL], Inr ''*Recommended Action:* '', to_string (get_prop p ''action'')] of
             Inl e \<Rightarrow> Inl e
           | Inr text2 \<Rightarrow>
               Inr (JObj
                 [(''text'', JStr ([CHR 0xF0, CHR 0x9F, CHR 0x9A, CHR 0xA8] @ '' *Security Alert ''
                                   @ [CHR 0xE2, CHR 0x80, CHR 0x93] @ '' ThreatPilot*'')),
                  (''blocks'', JArr
                    [JObj [(''type'', JStr ''section''),
                           (''text'', JObj [(''type'', JStr ''mrkdwn''), (''text'', JStr text1)])],
                     JObj [(''type'', JStr ''section''),
                           (''text'', JObj [(''type'', JStr ''mrkdwn''), (''text'', JStr text2)])],
                     JObj [(''type'', JStr ''context''),
                           (''elements'', JArr
                             [JObj [(''type'', JStr ''mrkdwn''),
                                    (''text'', JStr ([CHR 0xE2, CHR 0x8F, CHR 0xB1] @ '' '' @ ts))]])]])])))"

definition slack_request :: "world \<Rightarrow> jsval \<Rightarrow> http_request" where
  "slack_request w msg =
     \<lparr>url = env_text w ''SLACK_WEBHOOK_URL'',
      http_method = ''POST'',
      headers = [(''Content-Type'', ''application/json'')],
      body = JSON_stringify [] msg\<rparr>"

text \<open>
  The argument is the request body, which the route has already destructured, so it is
  neither \<^verbatim>\<open>undefined\<close> nor \<^verbatim>\<open>null\<close> and its properties can be read. The response of
  the webhook is awaited and dropped.
\<close>

definition alertSRESlack :: "world \<Rightarrow> jsval \<Rightarrow> unit outcome" where
  "alertSRESlack w p =
     (if \<not> truthy (getenv w ''SLACK_WEBHOOK_URL'')
      then ([], Inl (Error ''Slack webhook not configured''))
      else
        (case slack_message p (clock w 0) of
           Inl e \<Rightarrow> ([], Inl e)
         | Inr msg \<Rightarrow>
             (case fetch w (slack_request w msg) of
                Rejects e \<Rightarrow> ([Fetch (slack_request w msg)], Inl e)
              | Resolves res \<Rightarrow> ([Fetch (slack_request w msg)], Inr ()))))"

section \<open>Firewall client\<close>

definition cloudflare_request :: "world \<Rightarrow> jsval \<Rightarrow> http_request" where
  "cloudflare_request w ip =
     \<lparr>url = ''https://api.cloudflare.com/client/v4/zones/'' @ env_text w ''CF_ZONE_ID''
             @ ''/firewall/access_rules/rules'',
      http_method = ''POST'',
      headers = [(''Authorization'', ''Bearer '' @ env_text w ''CF_API_TOKEN''),
                 (''Content-Type'', ''application/json'')],
      body = JSON_stringify []
        (JObj [(''mode'', JStr ''block''),
               (''configuration'', JObj [(''target'', JStr ''ip''), (''value'', ip)]),
               (''notes'', JStr ''ThreatPilot automated remediation'')])\<rparr>"

text \<open>What the client throws when the remote body says the call did not succeed.\<close>

definition cloudflare_error :: "jsval \<Rightarrow> js_error" where
  "cloudflare_error data =
     new_Error (or_else (opt_prop (opt_first_element (get_prop data ''errors'')) ''message'')
                        (JStr ''Cloudflare block failed''))"

definition blockIPCloudflare :: "world \<Rightarrow> jsval \<Rightarrow> jsval outcome" where
  "blockIPCloudflare w ip =
     (if \<not> truthy (getenv w ''CF_ZONE_ID'') \<or> \<not> truthy (getenv w ''CF_API_TOKEN'')
      then ([], Inl (Error ''Cloudflare env vars missing''))
      else
        (case fetch w (cloudflare_request w ip) of
           Rejects e \<Rightarrow> ([Fetch (cloudflare_request w ip)], Inl e)
         | Resolves response \<Rightarrow>
             (case res_json response of
                Inl e \<Rightarrow> ([Fetch (cloudflare_request w ip)], Inl e)
              | Inr data \<Rightarrow>
                  (case member data ''success'' of
                     Inl e \<Rightarrow> ([Fetch (cloudflare_request w ip)], Inl e)
                   | Inr success \<Rightarrow>
                       if \<not> truthy success
                       then ([Fetch (cloudflare_request w ip), ConsoleError ''Cloudflare error:'' data],
                             Inl (cloudflare_error data))
                       else ([Fetch (cloudflare_request w ip)], Inr (get_prop data ''result''))))))"

section \<open>The route POST /execute\<close>

record http_response =
  status :: nat
  json :: jsval

text \<open>
  The argument the route builds for the ticketing client. The description is a template
  literal that converts the severity, so building it can throw; the action is one of
  three strings here.
\<close>

definition ticket_of :: "jsval \<Rightarrow> jsval \<Rightarrow> jsval \<Rightarrow> js_error + ticket" where
  "ticket_of action target severity =
     (case template [Inr ''Action: '', to_string action, Inr [NL],
                     Inr ''Target: '', Inr (template_opt (JSON_stringify ''  '' target)), Inr [NL],
                     Inr ''Severity: '', to_string severity] of
        Inl e \<Rightarrow> Inl e
      | Inr descr \<Rightarrow>
          Inr \<lparr>summary = ''[ThreatPilot] ''
                          @ toUpperCase (replaceAll_char (CHR ''_'') (CHR '' '') (string_value action)),
               description = descr,
               priority = (if severity = JStr ''high'' then JStr ''High'' else JStr ''Medium'')\<rparr>)"

text \<open>
  The body of the \<^verbatim>\<open>try\<close>. Destructuring a body that is \<^verbatim>\<open>undefined\<close> or \<^verbatim>\<open>null\<close>
  throws; \<^verbatim>\<open>severity\<close> takes its default when the property is \<^verbatim>\<open>undefined\<close>. In the
  answer to a direct block, \<^verbatim>\<open>rule.id\<close> is read before the message is built.
\<close>

definition try_block :: "world \<Rightarrow> jsval \<Rightarrow> http_response outcome" where
  "try_block w req_body =
     (if nullish req_body
      then ([], Inl (TypeError (''Cannot destructure property '' @ [SQ] @ ''action'' @ [SQ]
                                @ '' of '' @ [SQ] @ ''req.body'' @ [SQ] @ '' as it is ''
                                @ (if req_body = JNull then ''null'' else ''undefined'') @ ''.'')))
      else
        (let action = get_prop req_body ''action'';
             target = get_prop req_body ''target'';
             severity = with_default (get_prop req_body ''severity'') (JStr ''medium'')
         in
         if \<not> truthy action
         then ([], Inr \<lparr>status = 400,
                        json = JObj [(''status'', JStr ''error''), (''message'', JStr ''Action is required'')]\<rparr>)
         else if action = JStr ''block_ip''
         then
           (case blockIPCloudflare w target of
              (es, Inl e) \<Rightarrow> (es, Inl e)
            | (es, Inr rule) \<Rightarrow>
                (case member rule ''id'' of
                   Inl e \<Rightarrow> (es, Inl e)
                 | Inr rule_id \<Rightarrow>
                     (case template [Inr ''IP '', to_string target, Inr '' blocked via Cloudflare''] of
                        Inl e \<Rightarrow> (es, Inl e)
                      | Inr text \<Rightarrow>
                          (es, Inr \<lparr>status = 200,
                                    json = JObj [(''status'', JStr ''success''),
                                                 (''action_taken'', JStr ''block_ip''),
                                                 (''target'', target),
                                                 (''method'', JStr ''cloudflare_firewall''),
                                                 (''cloudflare_rule_id'', rule_id),
                                                 (''message'', JStr text),
                                                 (''executed_at'', JStr (clock w 0))]\<rparr>))))
         else if action = JStr ''rate_limit_ip'' \<or> action = JStr ''add_waf_rule''
                 \<or> action = JStr ''block_endpoint''
         then
           (case ticket_of action target severity of
              Inl e \<Rightarrow> ([], Inl e)
            | Inr t \<Rightarrow>
                (case createJiraTicket w t of
                   (es, Inl e) \<Rightarrow> (es, Inl e)
                 | (es, Inr jiraKey) \<Rightarrow>
                     (es, Inr \<lparr>status = 200,
                               json = JObj [(''status'', JStr ''pending_approval''),
                                            (''action'', action),
                                            (''target'', target),
                                            (''jira_ticket'', jiraKey)]\<rparr>)))
         else if action = JStr ''alert_sre''
         then
           (case alertSRESlack w req_body of
              (es, Inl e) \<Rightarrow> (es, Inl e)
            | (es, Inr u) \<Rightarrow>
                (es, Inr \<lparr>status = 200,
                          json = JObj [(''status'', JStr ''success''),
                                       (''action_taken'', JStr ''alert_sre''),
                                       (''method'', JStr ''slack_notification''),
                                       (''message'', JStr ''SRE alerted via Slack''),
                                       (''executed_at'', JStr (clock w 1))]\<rparr>))
         else ([], Inr \<lparr>status = 400,
                        json = JObj [(''status'', JStr ''ignored''), (''message'', JStr ''Unsupported action'')]\<rparr>)))"

text \<open>
  The route: the \<^verbatim>\<open>try\<close> with its \<^verbatim>\<open>catch\<close>, which logs the message of the error and
  answers 500. The result is the effects of the request and the response sent.
\<close>

definition execute :: "world \<Rightarrow> jsval \<Rightarrow> effect list \<times> http_response" where
  "execute w req_body =
     (case try_block w req_body of
        (es, Inr response) \<Rightarrow> (es, response)
      | (es, Inl err) \<Rightarrow>
          (es @ [ConsoleError ([CHR 0xE2, CHR 0x9D, CHR 0x8C] @ '' Remediation error:'') (JStr (message err))],
           \<lparr>status = 500,
            json = JObj [(''status'', JStr ''error''), (''message'', JStr (message err))]\<rparr>))"

section \<open>Observations\<close>

text \<open>
  What the properties below read off a run: the outbound calls among the effects, the
  priority an issue payload asks for, the text of the \<open>i\<close>-th block of a chat message
  (\<open>i\<close> is 0 or 1) and whether it contains a given text.
\<close>

definition fetches :: "effect list \<Rightarrow> http_request list" where
  "fetches es = concat (map (\<lambda>e. case e of Fetch r \<Rightarrow> [r] | ConsoleError l v \<Rightarrow> []) es)"

definition priority_name :: "jsval \<Rightarrow> jsval" where
  "priority_name issue = get_prop (get_prop (get_prop issue ''fields'') ''priority'') ''name''"

definition section_text :: "jsval \<Rightarrow> nat \<Rightarrow> jsval" where
  "section_text msg i =
     (case get_prop msg ''blocks'' of
        JArr blocks \<Rightarrow> (if i < length blocks then get_prop (get_prop (blocks ! i) ''text'') ''text''
                        else JUndefined)
      | other \<Rightarrow> JUndefined)"

definition section_contains :: "jsval \<Rightarrow> nat \<Rightarrow> string \<Rightarrow> bool" where
  "section_contains msg i s = (case section_text msg i of JStr t \<Rightarrow> sublist s t | other \<Rightarrow> False)"

section \<open>Concrete worlds and requests\<close>

text \<open>
  An environment with every variable set, a world that answers every outbound request
  in one given way, and the requests and remote answers the examples below run on.
  \<open>own_toString\<close> is the parsed value of \<^verbatim>\<open>{"toString": 1}\<close>, which has no text.
\<close>

definition example_env :: "string \<Rightarrow> string option" where
  "example_env =
     [''CF_ZONE_ID'' \<mapsto> ''zone1'', ''CF_API_TOKEN'' \<mapsto> ''cf-token'',
      ''SLACK_WEBHOOK_URL'' \<mapsto> ''https://hooks.example/T1'',
      ''JIRA_BASE'' \<mapsto> ''https://jira.example'', ''JIRA_MAIL'' \<mapsto> ''bot@example.com'',
      ''JIRA_API'' \<mapsto> ''jira-token'', ''JIRA_PROJECT'' \<mapsto> ''SEC'']"

definition example_world :: "(string \<Rightarrow> string option) \<Rightarrow> fetch_outcome \<Rightarrow> world" where
  "example_world e out =
     \<lparr>env = e, fetch = (\<lambda>r. out),
      clock = (\<lambda>k. if k = 0 then ''2024-01-01T00:00:00.000Z'' else ''2024-01-01T00:00:01.000Z'')\<rparr>"

definition own_toString :: jsval where
  "own_toString = JObj [(''toString'', JNum ''1'')]"

definition block_request :: jsval where
  "block_request =
     JObj [(''action'', JStr ''block_ip''), (''target'', JStr ''203.0.113.7''), (''severity'', JStr ''high'')]"

definition block_request_other :: jsval where
  "block_request_other =
     JObj [(''severity'', JStr ''low''), (''action'', JStr ''block_ip''),
           (''reporter'', JStr ''ids-7''), (''target'', JStr ''203.0.113.7'')]"

definition block_request_no_text :: jsval where
  "block_request_no_text = JObj [(''action'', JStr ''block_ip''), (''target'', own_toString)]"

definition rule_created :: fetch_response where
  "rule_created =
     \<lparr>res_status = 200,
      res_json = Inr (JObj [(''success'', JBool True), (''result'', JObj [(''id'', JStr ''rule-92f1'')])])\<rparr>"



definition rule_without_id :: fetch_response where
  "rule_without_id =
     \<lparr>res_status = 200, res_json = Inr (JObj [(''success'', JBool True), (''result'', JObj [])])\<rparr>"

definition no_rule :: fetch_response where
  "no_rule = \<lparr>res_status = 200, res_json = Inr (JObj [(''success'', JBool True)])\<rparr>"

definition ticket_created :: fetch_response where
  "ticket_created =
     \<lparr>res_status = 201,
      res_json = Inr (JObj [(''id'', JStr ''10042''), (''key'', JStr ''SEC-17'')])\<rparr>"

definition waf_request :: jsval where
  "waf_request =
     JObj [(''action'', JStr ''add_waf_rule''),
           (''target'', JObj [(''path'', JStr ''/login'')]),
           (''severity'', JStr ''high'')]"

definition waf_ticket :: ticket where
  "waf_ticket =
     \<lparr>summary = ''[ThreatPilot] ADD WAF RULE'',
      description = ''Action: add_waf_rule'' @ [NL] @ ''Target: {'' @ [NL] @ ''  '' @ [DQ] @ ''path'' @ [DQ]
                    @ '': '' @ [DQ] @ ''/login'' @ [DQ] @ [NL] @ ''}'' @ [NL] @ ''Severity: high'',
      priority = JStr ''High''\<rparr>"

definition waf_request_no_text :: jsval where
  "waf_request_no_text =
     JObj [(''action'', JStr ''add_waf_rule''),
           (''target'', JObj [(''path'', JStr ''/login'')]),
           (''severity'', own_toString)]"



definition webhook_ok :: fetch_response where
  "webhook_ok = \<lparr>res_status = 200, res_json = Inl (FetchError ''invalid json response body'')\<rparr>"

definition webhook_failure :: fetch_response where
  "webhook_failure = \<lparr>res_status = 404, res_json = Inl (FetchError ''invalid json response body'')\<rparr>"

definition alert_request :: jsval where
  "alert_request =
     JObj [(''action'', JStr ''alert_sre''), (''threat'', JStr ''SQLi''),
           (''severity'', JStr ''high''), (''target'', JStr ''api.example.com'')]"

definition alert_request_no_text :: jsval where
  "alert_request_no_text = JObj [(''action'', JStr ''alert_sre''), (''threat'', own_toString)]"

definition sqli_payload :: jsval where
  "sqli_payload =
     JObj [(''threat'', JStr ''SQLi''), (''severity'', JStr ''high''),
           (''target'', JStr ''api.example.com''), (''action'', JStr ''block'')]"

text \<open>The chat message for \<open>alert_request\<close> at a given time.\<close>

definition sqli_alert_message :: "string \<Rightarrow> jsval" where
  "sqli_alert_message ts =
     JObj [(''text'', JStr ([CHR 0xF0, CHR 0x9F, CHR 0x9A, CHR 0xA8] @ '' *Security Alert ''
                            @ [CHR 0xE2, CHR 0x80, CHR 0x93] @ '' ThreatPilot*'')),
           (''blocks'', JArr
             [JObj [(''type'', JStr ''section''),
                    (''text'', JObj [(''type'', JStr ''mrkdwn''),
                                     (''text'', JStr (''*Threat:* SQLi'' @ [NL] @ ''*Severity:* high''))])],
              JObj [(''type'', JStr ''section''),
                    (''text'', JObj [(''type'', JStr ''mrkdwn''),
                                     (''text'', JStr (''*Target:* api.example.com'' @ [NL]
                                                      @ ''*Recommended Action:* alert_sre''))])],
              JObj [(''type'', JStr ''context''),
                    (''elements'', JArr
                      [JObj [(''type'', JStr ''mrkdwn''),
                             (''text'', JStr ([CHR 0xE2, CHR 0x8F, CHR 0xB1] @ '' '' @ ts))]])]])]"

section \<open>Properties\<close>

subsection \<open>Auxiliary facts\<close>

lemma truthy_getenv: "truthy (getenv w k) = (\<exists>s. env w k = Some s \<and> s \<noteq> [])"
  by (simp add: getenv_def split: option.splits)

lemma get_prop_not_nullish: "get_prop v k \<noteq> JUndefined \<Longrightarrow> \<not> nullish v"
  by (cases v) simp_all

lemma template_target:
  "template [Inr ''IP '', to_string v, Inr '' blocked via Cloudflare''] =
     (case to_string v of Inl e \<Rightarrow> Inl e | Inr s \<Rightarrow> Inr (''IP '' @ s @ '' blocked via Cloudflare''))"
  by (simp add: template_def split: sum.split)

lemma try_block_block_ip:
  assumes "get_prop req ''action'' = JStr ''block_ip''"
  shows "try_block w req =
     (case blockIPCloudflare w (get_prop req ''target'') of
        (es, Inl e) \<Rightarrow> (es, Inl e)
      | (es, Inr rule) \<Rightarrow>
          (case member rule ''id'' of
             Inl e \<Rightarrow> (es, Inl e)
           | Inr rule_id \<Rightarrow>
               (case to_string (get_prop req ''target'') of
                  Inl e \<Rightarrow> (es, Inl e)
                | Inr s \<Rightarrow>
                    (es, Inr \<lparr>status = 200,
                              json = JObj [(''status'', JStr ''success''),
                                           (''action_taken'', JStr ''block_ip''),
                                           (''target'', get_prop req ''target''),
                                           (''method'', JStr ''cloudflare_firewall''),
                                           (''cloudflare_rule_id'', rule_id),
                                           (''message'', JStr (''IP '' @ s @ '' blocked via Cloudflare'')),
                                           (''executed_at'', JStr (clock w 0))]\<rparr>))))"
proof -
  have "\<not> nullish req"
    using assms get_prop_not_nullish[of req "''action''"] by simp
  then show ?thesis
    using assms by (simp add: try_block_def Let_def template_target split: prod.split sum.split)
qed

lemma blockIPCloudflare_resolved:
  assumes "env w ''CF_ZONE_ID'' = Some zone" and "zone \<noteq> []"
    and "env w ''CF_API_TOKEN'' = Some token" and "token \<noteq> []"
    and "fetch w (cloudflare_request w ip) = Resolves res"
    and "res_json res = Inr data"
    and "\<not> nullish data"
  shows "blockIPCloudflare w ip =
     (if \<not> truthy (get_prop data ''success'')
      then ([Fetch (cloudflare_request w ip), ConsoleError ''Cloudflare error:'' data],
            Inl (cloudflare_error data))
      else ([Fetch (cloudflare_request w ip)], Inr (get_prop data ''result'')))"
  using assms by (simp add: blockIPCloudflare_def truthy_getenv member_def)

lemma getenv_cong: "env w1 = env w2 \<Longrightarrow> getenv w1 k = getenv w2 k"
  by (simp add: getenv_def)

lemma cloudflare_request_cong:
  "env w1 = env w2 \<Longrightarrow> cloudflare_request w1 ip = cloudflare_request w2 ip"
  by (simp add: cloudflare_request_def env_text_def)

lemma blockIPCloudflare_cong:
  assumes "env w1 = env w2" and "fetch w1 = fetch w2"
  shows "blockIPCloudflare w1 ip = blockIPCloudflare w2 ip"
  by (simp add: blockIPCloudflare_def getenv_cong[OF assms(1)] cloudflare_request_cong[OF assms(1)] assms(2)
        split: fetch_outcome.split sum.split)

lemma template_description:
  "template [Inr ''Action: '', to_string (JStr a), Inr [NL],
             Inr ''Target: '', Inr tgt, Inr [NL],
             Inr ''Severity: '', to_string sev] =
     (case to_string sev of
        Inl e \<Rightarrow> Inl e
      | Inr s \<Rightarrow> Inr (''Action: '' @ a @ [NL] @ ''Target: '' @ tgt @ [NL] @ ''Severity: '' @ s))"
  by (simp add: template_def split: sum.split)

lemma ticket_of_eq:
  "ticket_of (JStr a) target sev =
     (case to_string sev of
        Inl e \<Rightarrow> Inl e
      | Inr s \<Rightarrow>
          Inr \<lparr>summary = ''[ThreatPilot] '' @ toUpperCase (replaceAll_char (CHR ''_'') (CHR '' '') a),
               description = ''Action: '' @ a @ [NL] @ ''Target: ''
                             @ template_opt (JSON_stringify ''  '' target) @ [NL] @ ''Severity: '' @ s,
               priority = (if sev = JStr ''high'' then JStr ''High'' else JStr ''Medium'')\<rparr>)"
  unfolding ticket_of_def template_description by (simp split: sum.split)

lemma try_block_ticketing:
  assumes "get_prop req ''action'' = JStr a"
    and "a = ''rate_limit_ip'' \<or> a = ''add_waf_rule'' \<or> a = ''block_endpoint''"
  shows "try_block w req =
     (case ticket_of (JStr a) (get_prop req ''target'')
             (with_default (get_prop req ''severity'') (JStr ''medium'')) of
        Inl e \<Rightarrow> ([], Inl e)
      | Inr t \<Rightarrow>
          (case createJiraTicket w t of
             (es, Inl e) \<Rightarrow> (es, Inl e)
           | (es, Inr jiraKey) \<Rightarrow>
               (es, Inr \<lparr>status = 200,
                         json = JObj [(''status'', JStr ''pending_approval''),
                                      (''action'', JStr a),
                                      (''target'', get_prop req ''target''),
                                      (''jira_ticket'', jiraKey)]\<rparr>)))"
proof -
  have "\<not> nullish req"
    using assms(1) get_prop_not_nullish[of req "''action''"] by simp
  then show ?thesis
    using assms by (auto simp add: try_block_def Let_def)
qed

lemma createJiraTicket_fetches:
  assumes "env w ''JIRA_BASE'' = Some base" and "base \<noteq> []"
    and "env w ''JIRA_MAIL'' = Some mail" and "mail \<noteq> []"
    and "env w ''JIRA_API'' = Some token" and "token \<noteq> []"
    and "env w ''JIRA_PROJECT'' = Some project" and "project \<noteq> []"
  shows "fetches (fst (createJiraTicket w t)) = [jira_request w t]"
  using assms
  by (simp add: createJiraTicket_def truthy_getenv fetches_def
        split: fetch_outcome.split sum.split)

lemma fetches_append_log: "fetches (es @ [ConsoleError l v]) = fetches es"
  by (simp add: fetches_def)

lemma ticketing_fetches:
  assumes "get_prop req ''action'' = JStr a"
    and "a = ''rate_limit_ip'' \<or> a = ''add_waf_rule'' \<or> a = ''block_endpoint''"
    and "env w ''JIRA_BASE'' = Some base" and "base \<noteq> []"
    and "env w ''JIRA_MAIL'' = Some mail" and "mail \<noteq> []"
    and "env w ''JIRA_API'' = Some token" and "token \<noteq> []"
    and "env w ''JIRA_PROJECT'' = Some project" and "project \<noteq> []"
    and "ticket_of (JStr a) (get_prop req ''target'')
           (with_default (get_prop req ''severity'') (JStr ''medium'')) = Inr t"
  shows "fetches (fst (execute w req)) = [jira_request w t]"
proof -
  obtain es r where c: "createJiraTicket w t = (es, r)"
    by (cases "createJiraTicket w t") auto
  have f: "fetches es = [jira_request w t]"
    using createJiraTicket_fetches[OF assms(3-10), of t] c by simp
  show ?thesis
    using f by (cases r) (simp_all add: execute_def try_block_ticketing[OF assms(1,2)] assms(11) c fetches_append_log)
qed

lemma ticketing_no_ticket:
  assumes "get_prop req ''action'' = JStr a"
    and "a = ''rate_limit_ip'' \<or> a = ''add_waf_rule'' \<or> a = ''block_endpoint''"
    and "ticket_of (JStr a) (get_prop req ''target'')
           (with_default (get_prop req ''severity'') (JStr ''medium'')) = Inl e"
  shows "execute w req =
     ([ConsoleError ([CHR 0xE2, CHR 0x9D, CHR 0x8C] @ '' Remediation error:'') (JStr (message e))],
      \<lparr>status = 500, json = JObj [(''status'', JStr ''error''), (''message'', JStr (message e))]\<rparr>)"
  by (simp add: execute_def try_block_ticketing[OF assms(1,2)] assms(3))

lemma jira_request_payload:
  assumes "env w ''JIRA_PROJECT'' = Some project" and "priority t \<noteq> JUndefined"
  shows "body (jira_request w t) =
           JSON_stringify [] (jira_payload (JStr project) (summary t) (description t) (priority t))"
  using assms by (simp add: jira_request_def getenv_def with_default_def)

lemma ticket_of_priority:
  assumes "ticket_of (JStr a) target sev = Inr t"
  shows "priority t = (if sev = JStr ''high'' then JStr ''High'' else JStr ''Medium'')"
  using assms by (auto simp add: ticket_of_eq split: sum.splits)

lemma with_default_high:
  "(with_default v (JStr ''medium'') = JStr ''high'') = (v = JStr ''high'')"
  by (simp add: with_default_def)

lemma priority_name_payload:
  "priority_name (jira_payload pk summ descr prio) = prio"
  by (simp add: priority_name_def jira_payload_def lookup_prop_def)

lemma ticket_made:
  assumes "get_prop req ''action'' = JStr a"
    and "a = ''rate_limit_ip'' \<or> a = ''add_waf_rule'' \<or> a = ''block_endpoint''"
    and "env w ''JIRA_BASE'' = Some base" and "base \<noteq> []"
    and "env w ''JIRA_MAIL'' = Some mail" and "mail \<noteq> []"
    and "env w ''JIRA_API'' = Some token" and "token \<noteq> []"
    and "env w ''JIRA_PROJECT'' = Some project" and "project \<noteq> []"
    and t: "ticket_of (JStr a) (get_prop req ''target'')
           (with_default (get_prop req ''severity'') (JStr ''medium'')) = Inr t"
  shows "fetches (fst (execute w req)) = [jira_request w t]
            \<and> body (jira_request w t)
                = JSON_stringify [] (jira_payload (JStr project) (summary t) (description t) (priority t))
            \<and> (priority_name (jira_payload (JStr project) (summary t) (description t) (priority t)) = JStr ''High'')
                = (get_prop req ''severity'' = JStr ''high'')
            \<and> (get_prop req ''severity'' \<noteq> JStr ''high'' \<longrightarrow>
                  priority_name (jira_payload (JStr project) (summary t) (description t) (priority t))
                    = JStr ''Medium'')"
proof -
  have p: "priority t = (if get_prop req ''severity'' = JStr ''high'' then JStr ''High'' else JStr ''Medium'')"
    using ticket_of_priority[OF t] by (simp add: with_default_high)
  have u: "priority t \<noteq> JUndefined"
    unfolding p by simp
  have b: "body (jira_request w t)
             = JSON_stringify [] (jira_payload (JStr project) (summary t) (description t) (priority t))"
    by (rule jira_request_payload[OF assms(9) u])
  have f: "fetches (fst (execute w req)) = [jira_request w t]"
    by (rule ticketing_fetches[OF assms(1-10) t])
  have h: "(priority t = JStr ''High'') = (get_prop req ''severity'' = JStr ''high'')"
    unfolding p by simp
  have m: "get_prop req ''severity'' \<noteq> JStr ''high'' \<longrightarrow> priority t = JStr ''Medium''"
    unfolding p by simp
  show ?thesis
    unfolding priority_name_payload by (rule conjI[OF f conjI[OF b conjI[OF h m]]])
qed

lemma ticket_of_contents:
  assumes "ticket_of (JStr a) target sev = Inr t"
  shows "summary t = ''[ThreatPilot] '' @ toUpperCase (replaceAll_char (CHR ''_'') (CHR '' '') a)
       \<and> (\<forall>s. to_string sev = Inr s \<longrightarrow>
             description t = ''Action: '' @ a @ [NL] @ ''Target: ''
                             @ template_opt (JSON_stringify ''  '' target) @ [NL] @ ''Severity: '' @ s)
       \<and> (\<exists>s. to_string sev = Inr s)"
  using assms by (auto simp add: ticket_of_eq split: sum.splits)

lemma description_contains_target:
  assumes "ticket_of (JStr a) target sev = Inr t"
  shows "(target \<noteq> JUndefined \<longrightarrow>
           (\<exists>r. JSON_stringify ''  '' target = Some r \<and> sublist r (description t)))
       \<and> (target = JUndefined \<longrightarrow> sublist ''Target: undefined'' (description t))"
proof -
  obtain s where s: "to_string sev = Inr s"
    using ticket_of_contents[OF assms] by blast
  have d: "description t = (''Action: '' @ a @ [NL] @ ''Target: '')
             @ template_opt (JSON_stringify ''  '' target) @ ([NL] @ ''Severity: '' @ s)"
    using ticket_of_contents[OF assms] s by simp
  have 1: "sublist (template_opt (JSON_stringify ''  '' target)) (description t)"
    unfolding d by (rule sublist_appendI)
  have d2: "description t = (''Action: '' @ a @ [NL])
             @ (''Target: '' @ template_opt (JSON_stringify ''  '' target)) @ ([NL] @ ''Severity: '' @ s)"
    unfolding d by simp
  have 2: "sublist (''Target: '' @ template_opt (JSON_stringify ''  '' target)) (description t)"
    unfolding d2 by (rule sublist_appendI)
  show ?thesis
  proof (intro conjI impI)
    assume "target \<noteq> JUndefined"
    then have "JSON_stringify ''  '' target = Some (serialize ''  '' [] target)"
      by (simp add: JSON_stringify_def)
    then show "\<exists>r. JSON_stringify ''  '' target = Some r \<and> sublist r (description t)"
      using 1 by (simp add: template_opt_def)
  next
    assume "target = JUndefined"
    then show "sublist ''Target: undefined'' (description t)"
      using 2 by (simp add: JSON_stringify_def template_opt_def)
  qed
qed

lemma try_block_alert:
  assumes "get_prop req ''action'' = JStr ''alert_sre''"
  shows "try_block w req =
     (case alertSRESlack w req of
        (es, Inl e) \<Rightarrow> (es, Inl e)
      | (es, Inr u) \<Rightarrow>
          (es, Inr \<lparr>status = 200,
                    json = JObj [(''status'', JStr ''success''),
                                 (''action_taken'', JStr ''alert_sre''),
                                 (''method'', JStr ''slack_notification''),
                                 (''message'', JStr ''SRE alerted via Slack''),
                                 (''executed_at'', JStr (clock w 1))]\<rparr>))"
proof -
  have "\<not> nullish req"
    using assms get_prop_not_nullish[of req "''action''"] by simp
  then show ?thesis
    using assms by (simp add: try_block_def Let_def del: One_nat_def)
qed

lemma alertSRESlack_configured:
  assumes "env w ''SLACK_WEBHOOK_URL'' = Some hook" and "hook \<noteq> []"
  shows "alertSRESlack w p =
     (case slack_message p (clock w 0) of
        Inl e \<Rightarrow> ([], Inl e)
      | Inr msg \<Rightarrow>
          (case fetch w (slack_request w msg) of
             Rejects e \<Rightarrow> ([Fetch (slack_request w msg)], Inl e)
           | Resolves res \<Rightarrow> ([Fetch (slack_request w msg)], Inr ())))"
  using assms by (simp add: alertSRESlack_def truthy_getenv)

lemma slack_message_sqli:
  assumes "get_prop req ''action'' = JStr ''alert_sre''"
    and "get_prop req ''threat'' = JStr ''SQLi''"
    and "get_prop req ''severity'' = JStr ''high''"
    and "get_prop req ''target'' = JStr ''api.example.com''"
  shows "slack_message req ts = Inr (sqli_alert_message ts)"
  using assms by (simp add: slack_message_def sqli_alert_message_def template_def or_else_def)

lemma alert_fetches:
  assumes "get_prop req ''action'' = JStr ''alert_sre''"
    and "env w ''SLACK_WEBHOOK_URL'' = Some hook" and "hook \<noteq> []"
    and "slack_message req (clock w 0) = Inr msg"
  shows "fetches (fst (execute w req)) = [slack_request w msg]"
  by (simp add: execute_def try_block_alert[OF assms(1)] alertSRESlack_configured[OF assms(2,3)] assms(4)
        fetches_def split: fetch_outcome.split)

lemma sqli_alert_sections:
  "section_text (sqli_alert_message ts) 0 = JStr (''*Threat:* SQLi'' @ [NL] @ ''*Severity:* high'')"
  "section_text (sqli_alert_message ts) 1
     = JStr (''*Target:* api.example.com'' @ [NL] @ ''*Recommended Action:* alert_sre'')"
  by (simp_all add: section_text_def sqli_alert_message_def lookup_prop_def)

subsection \<open>Direct block\<close>

text \<open>
  C1, as the code has it. A request with action \<^verbatim>\<open>block_ip\<close>, served with both
  firewall variables set (\<^verbatim>\<open>CF_ZONE_ID\<close>, \<^verbatim>\<open>CF_API_TOKEN\<close>) and a remote answer whose
  body has \<^verbatim>\<open>success\<close> true, is answered 200 with status \<^verbatim>\<open>success\<close>, \<^verbatim>\<open>action_taken\<close>
  \<^verbatim>\<open>block_ip\<close>, the target of the request, method \<^verbatim>\<open>cloudflare_firewall\<close> and, as
  \<^verbatim>\<open>cloudflare_rule_id\<close>, the \<^verbatim>\<open>id\<close> of the rule the remote returned, provided that the
  remote body carries a rule (\<^verbatim>\<open>result\<close> is neither absent nor \<^verbatim>\<open>null\<close>) and that the
  target has a text (the message of the answer prints it). The one effect is the
  firewall call; the transport status of the remote answer is free.
\<close>

theorem block_ip_success:
  assumes "get_prop req ''action'' = JStr ''block_ip''"
    and "env w ''CF_ZONE_ID'' = Some zone" and "zone \<noteq> []"
    and "env w ''CF_API_TOKEN'' = Some token" and "token \<noteq> []"
    and "fetch w (cloudflare_request w (get_prop req ''target'')) = Resolves res"
    and "res_json res = Inr data"
    and "get_prop data ''success'' = JBool True"
    and "\<not> nullish (get_prop data ''result'')"
    and "to_string (get_prop req ''target'') = Inr text"
  shows "execute w req =
    ([Fetch (cloudflare_request w (get_prop req ''target''))],
     \<lparr>status = 200,
      json = JObj [(''status'', JStr ''success''),
                   (''action_taken'', JStr ''block_ip''),
                   (''target'', get_prop req ''target''),
                   (''method'', JStr ''cloudflare_firewall''),
                   (''cloudflare_rule_id'', get_prop (get_prop data ''result'') ''id''),
                   (''message'', JStr (''IP '' @ text @ '' blocked via Cloudflare'')),
                   (''executed_at'', JStr (clock w 0))]\<rparr>)"
proof -
  have d: "\<not> nullish data"
    using assms(8) get_prop_not_nullish[of data "''success''"] by simp
  have "blockIPCloudflare w (get_prop req ''target'') =
          ([Fetch (cloudflare_request w (get_prop req ''target''))], Inr (get_prop data ''result''))"
    using blockIPCloudflare_resolved[OF assms(2-7) d] assms(8) by simp
  then show ?thesis
    using assms(9,10) by (simp add: execute_def try_block_block_ip[OF assms(1)] member_def)
qed

theorem block_ip_success_witness:
  "execute (example_world example_env (Resolves rule_created)) block_request =
    ([Fetch (cloudflare_request (example_world example_env (Resolves rule_created)) (JStr ''203.0.113.7''))],
     \<lparr>status = 200,
      json = JObj [(''status'', JStr ''success''),
                   (''action_taken'', JStr ''block_ip''),
                   (''target'', JStr ''203.0.113.7''),
                   (''method'', JStr ''cloudflare_firewall''),
                   (''cloudflare_rule_id'', JStr ''rule-92f1''),
                   (''message'', JStr ''IP 203.0.113.7 blocked via Cloudflare''),
                   (''executed_at'', JStr ''2024-01-01T00:00:00.000Z'')]\<rparr>)"
  using block_ip_success[of block_request "example_world example_env (Resolves rule_created)"
      "''zone1''" "''cf-token''" rule_created
      "JObj [(''success'', JBool True), (''result'', JObj [(''id'', JStr ''rule-92f1'')])]"
      "''203.0.113.7''"]
  by (simp add: example_world_def example_env_def block_request_def rule_created_def lookup_prop_def)

text \<open>
  With \<^verbatim>\<open>success\<close> true and no \<^verbatim>\<open>result\<close> in the remote body, and again with a rule
  returned for the target \<^verbatim>\<open>{"toString": 1}\<close>, the firewall call is made and the answer
  is 500.
\<close>

theorem block_ip_success_counterexample:
  "execute (example_world example_env (Resolves no_rule)) block_request =
      ([Fetch (cloudflare_request (example_world example_env (Resolves no_rule)) (JStr ''203.0.113.7'')),
        ConsoleError ([CHR 0xE2, CHR 0x9D, CHR 0x8C] @ '' Remediation error:'')
          (JStr (''Cannot read properties of undefined (reading '' @ [SQ] @ ''id'' @ [SQ] @ '')''))],
       \<lparr>status = 500,
        json = JObj [(''status'', JStr ''error''),
                     (''message'', JStr (''Cannot read properties of undefined (reading '' @ [SQ] @ ''id'' @ [SQ] @ '')''))]\<rparr>)
   \<and> execute (example_world example_env (Resolves rule_created)) block_request_no_text =
      ([Fetch (cloudflare_request (example_world example_env (Resolves rule_created)) own_toString),
        ConsoleError ([CHR 0xE2, CHR 0x9D, CHR 0x8C] @ '' Remediation error:'')
          (JStr ''Cannot convert object to primitive value'')],
       \<lparr>status = 500,
        json = JObj [(''status'', JStr ''error''),
                     (''message'', JStr ''Cannot convert object to primitive value'')]\<rparr>)"
  by (simp add: execute_def try_block_def blockIPCloudflare_def example_world_def example_env_def
        block_request_def block_request_no_text_def own_toString_def no_rule_def rule_created_def
        lookup_prop_def getenv_def member_def cannot_read_def cannot_convert_def template_def Let_def)

text \<open>
  C4. A request with action \<^verbatim>\<open>block_ip\<close>, served while the zone identifier or the API
  credential is absent from the environment (or set to the empty string), makes no
  outbound call at all: the only effect is the log line of the route, and the answer is
  500 with status \<^verbatim>\<open>error\<close> and the message \<^verbatim>\<open>Cloudflare env vars missing\<close>.
\<close>

theorem block_ip_config_missing:
  assumes "get_prop req ''action'' = JStr ''block_ip''"
    and "env w ''CF_ZONE_ID'' = None \<or> env w ''CF_ZONE_ID'' = Some []
         \<or> env w ''CF_API_TOKEN'' = None \<or> env w ''CF_API_TOKEN'' = Some []"
  shows "execute w req =
    ([ConsoleError ([CHR 0xE2, CHR 0x9D, CHR 0x8C] @ '' Remediation error:'') (JStr ''Cloudflare env vars missing'')],
     \<lparr>status = 500,
      json = JObj [(''status'', JStr ''error''), (''message'', JStr ''Cloudflare env vars missing'')]\<rparr>)
    \<and> fetches (fst (execute w req)) = []"
proof -
  have "blockIPCloudflare w (get_prop req ''target'') = ([], Inl (Error ''Cloudflare env vars missing''))"
    using assms(2) by (auto simp add: blockIPCloudflare_def truthy_getenv)
  then show ?thesis
    by (simp add: execute_def try_block_block_ip[OF assms(1)] fetches_def)
qed

theorem block_ip_config_missing_witness:
  "execute (example_world (example_env(''CF_API_TOKEN'' := None)) (Resolves rule_created)) block_request =
    ([ConsoleError ([CHR 0xE2, CHR 0x9D, CHR 0x8C] @ '' Remediation error:'') (JStr ''Cloudflare env vars missing'')],
     \<lparr>status = 500,
      json = JObj [(''status'', JStr ''error''), (''message'', JStr ''Cloudflare env vars missing'')]\<rparr>)
    \<and> fetches (fst (execute (example_world (example_env(''CF_API_TOKEN'' := None)) (Resolves rule_created))
                              block_request)) = []"
  using block_ip_config_missing[of block_request
      "example_world (example_env(''CF_API_TOKEN'' := None)) (Resolves rule_created)"]
  by (simp add: example_world_def block_request_def lookup_prop_def fetches_def)

subsection \<open>Validation\<close>




subsection \<open>Remote rejection\<close>



subsection \<open>A rule without identifier\<close>

text \<open>
  C9, as the code has it. For a request with action \<^verbatim>\<open>block_ip\<close> whose remote answer
  has \<^verbatim>\<open>success\<close> true: when \<^verbatim>\<open>result\<close> is absent or \<^verbatim>\<open>null\<close>, reading \<^verbatim>\<open>rule.id\<close>
  throws and the answer is 500 with status \<^verbatim>\<open>error\<close>; when \<^verbatim>\<open>result\<close> is there but has
  no \<^verbatim>\<open>id\<close>, reading it does not throw, and for a target that has a text the answer
  is 200 with status \<^verbatim>\<open>success\<close> and an undefined \<^verbatim>\<open>cloudflare_rule_id\<close>.
\<close>

theorem missing_rule:
  assumes "get_prop req ''action'' = JStr ''block_ip''"
    and "env w ''CF_ZONE_ID'' = Some zone" and "zone \<noteq> []"
    and "env w ''CF_API_TOKEN'' = Some token" and "token \<noteq> []"
    and "fetch w (cloudflare_request w (get_prop req ''target'')) = Resolves res"
    and "res_json res = Inr data"
    and "get_prop data ''success'' = JBool True"
  shows "(nullish (get_prop data ''result'') \<longrightarrow>
            execute w req =
              ([Fetch (cloudflare_request w (get_prop req ''target'')),
                ConsoleError ([CHR 0xE2, CHR 0x9D, CHR 0x8C] @ '' Remediation error:'')
                  (JStr (message (cannot_read (get_prop data ''result'') ''id'')))],
               \<lparr>status = 500,
                json = JObj [(''status'', JStr ''error''),
                             (''message'', JStr (message (cannot_read (get_prop data ''result'') ''id'')))]\<rparr>))
       \<and> (\<forall>text. \<not> nullish (get_prop data ''result'')
                   \<and> get_prop (get_prop data ''result'') ''id'' = JUndefined
                   \<and> to_string (get_prop req ''target'') = Inr text \<longrightarrow>
            fst (execute w req) = [Fetch (cloudflare_request w (get_prop req ''target''))]
            \<and> status (snd (execute w req)) = 200
            \<and> get_prop (json (snd (execute w req))) ''status'' = JStr ''success''
            \<and> get_prop (json (snd (execute w req))) ''cloudflare_rule_id'' = JUndefined)"
proof -
  have d: "\<not> nullish data"
    using assms(8) get_prop_not_nullish[of data "''success''"] by simp
  have b: "blockIPCloudflare w (get_prop req ''target'') =
          ([Fetch (cloudflare_request w (get_prop req ''target''))], Inr (get_prop data ''result''))"
    using blockIPCloudflare_resolved[OF assms(2-7) d] assms(8) by simp
  show ?thesis
    by (auto simp add: execute_def try_block_block_ip[OF assms(1)] b member_def lookup_prop_def)
qed

theorem missing_rule_witness:
  "execute (example_world example_env (Resolves no_rule)) block_request =
      ([Fetch (cloudflare_request (example_world example_env (Resolves no_rule)) (JStr ''203.0.113.7'')),
        ConsoleError ([CHR 0xE2, CHR 0x9D, CHR 0x8C] @ '' Remediation error:'')
          (JStr (''Cannot read properties of undefined (reading '' @ [SQ] @ ''id'' @ [SQ] @ '')''))],
       \<lparr>status = 500,
        json = JObj [(''status'', JStr ''error''),
                     (''message'', JStr (''Cannot read properties of undefined (reading '' @ [SQ] @ ''id'' @ [SQ] @ '')''))]\<rparr>)
   \<and> status (snd (execute (example_world example_env (Resolves rule_without_id)) block_request)) = 200
   \<and> get_prop (json (snd (execute (example_world example_env (Resolves rule_without_id)) block_request)))
        ''cloudflare_rule_id'' = JUndefined"
  using missing_rule[of block_request "example_world example_env (Resolves no_rule)"
          "''zone1''" "''cf-token''" no_rule "JObj [(''success'', JBool True)]"]
        missing_rule[of block_request "example_world example_env (Resolves rule_without_id)"
          "''zone1''" "''cf-token''" rule_without_id "JObj [(''success'', JBool True), (''result'', JObj [])]"]
  by (simp add: example_world_def example_env_def block_request_def no_rule_def rule_without_id_def
        lookup_prop_def cannot_read_def)

text \<open>
  The remote answers \<^verbatim>\<open>{success: true, result: {}}\<close>: the rule has no \<^verbatim>\<open>id\<close>, and the
  request is answered 200 with status \<^verbatim>\<open>success\<close>, not 500.
\<close>

theorem missing_rule_id_counterexample:
  "execute (example_world example_env (Resolves rule_without_id)) block_request =
    ([Fetch (cloudflare_request (example_world example_env (Resolves rule_without_id)) (JStr ''203.0.113.7''))],
     \<lparr>status = 200,
      json = JObj [(''status'', JStr ''success''),
                   (''action_taken'', JStr ''block_ip''),
                   (''target'', JStr ''203.0.113.7''),
                   (''method'', JStr ''cloudflare_firewall''),
                   (''cloudflare_rule_id'', JUndefined),
                   (''message'', JStr ''IP 203.0.113.7 blocked via Cloudflare''),
                   (''executed_at'', JStr ''2024-01-01T00:00:00.000Z'')]\<rparr>)
   \<and> status (snd (execute (example_world example_env (Resolves rule_without_id)) block_request)) \<noteq> 500"
  by (simp add: execute_def try_block_def blockIPCloudflare_def example_world_def example_env_def
        block_request_def rule_without_id_def lookup_prop_def getenv_def member_def template_def Let_def)

subsection \<open>What a direct block depends on\<close>

text \<open>
  C10. Two requests with action \<^verbatim>\<open>block_ip\<close> and the same target, whatever their
  severity and other fields, served under the same environment and the same remote
  behaviour at any two times: their effects are the same, so the outbound firewall
  requests (and their bodies) are identical, the answers have the same status, and the
  response bodies agree on every field other than \<^verbatim>\<open>executed_at\<close>.
\<close>

theorem block_ip_depends_on_target_only:
  assumes "get_prop r1 ''action'' = JStr ''block_ip''"
    and "get_prop r2 ''action'' = JStr ''block_ip''"
    and "get_prop r1 ''target'' = get_prop r2 ''target''"
    and "env w1 = env w2" and "fetch w1 = fetch w2"
  shows "fst (execute w1 r1) = fst (execute w2 r2)
       \<and> fetches (fst (execute w1 r1)) = fetches (fst (execute w2 r2))
       \<and> status (snd (execute w1 r1)) = status (snd (execute w2 r2))
       \<and> (\<forall>k. k \<noteq> ''executed_at'' \<longrightarrow>
             get_prop (json (snd (execute w1 r1))) k = get_prop (json (snd (execute w2 r2))) k)"
proof -
  obtain es r where b2: "blockIPCloudflare w2 (get_prop r2 ''target'') = (es, r)"
    by (cases "blockIPCloudflare w2 (get_prop r2 ''target'')") auto
  have b1: "blockIPCloudflare w1 (get_prop r2 ''target'') = (es, r)"
    using blockIPCloudflare_cong[OF assms(4,5), of "get_prop r2 ''target''"] b2 by simp
  show ?thesis
  proof (cases r)
    case (Inl e)
    then show ?thesis
      by (simp add: execute_def try_block_block_ip[OF assms(1)] try_block_block_ip[OF assms(2)] b1 b2 assms(3))
  next
    case (Inr rule)
    then show ?thesis
      by (cases "member rule ''id''"; cases "to_string (get_prop r2 ''target'')")
         (simp_all add: execute_def try_block_block_ip[OF assms(1)] try_block_block_ip[OF assms(2)] b1 b2 assms(3)
            lookup_prop_def)
  qed
qed

theorem block_ip_depends_on_target_only_witness:
  "fst (execute (example_world example_env (Resolves rule_created)) block_request)
     = fst (execute ((example_world example_env (Resolves rule_created))\<lparr>clock := (\<lambda>k. ''2025-06-30T12:00:00.000Z'')\<rparr>)
                    block_request_other)
   \<and> fetches (fst (execute (example_world example_env (Resolves rule_created)) block_request))
     = fetches (fst (execute ((example_world example_env (Resolves rule_created))\<lparr>clock := (\<lambda>k. ''2025-06-30T12:00:00.000Z'')\<rparr>)
                    block_request_other))
   \<and> status (snd (execute (example_world example_env (Resolves rule_created)) block_request))
     = status (snd (execute ((example_world example_env (Resolves rule_created))\<lparr>clock := (\<lambda>k. ''2025-06-30T12:00:00.000Z'')\<rparr>)
                            block_request_other))
   \<and> get_prop (json (snd (execute (example_world example_env (Resolves rule_created)) block_request)))
         ''cloudflare_rule_id''
     = get_prop (json (snd (execute ((example_world example_env (Resolves rule_created))\<lparr>clock := (\<lambda>k. ''2025-06-30T12:00:00.000Z'')\<rparr>)
                                    block_request_other)))
         ''cloudflare_rule_id''
   \<and> get_prop (json (snd (execute (example_world example_env (Resolves rule_created)) block_request)))
         ''message''
     = get_prop (json (snd (execute ((example_world example_env (Resolves rule_created))\<lparr>clock := (\<lambda>k. ''2025-06-30T12:00:00.000Z'')\<rparr>)
                                    block_request_other)))
         ''message''"
  using block_ip_depends_on_target_only[of block_request block_request_other
          "example_world example_env (Resolves rule_created)"
          "(example_world example_env (Resolves rule_created))\<lparr>clock := (\<lambda>k. ''2025-06-30T12:00:00.000Z'')\<rparr>"]
  by (simp add: example_world_def block_request_def block_request_other_def lookup_prop_def)

subsection \<open>Tickets\<close>



text \<open>
  C6, as the code has it. For a request routed to ticketing, served with the tracker
  configured, for which the route builds its ticket \<open>t\<close> (the severity has a text): the
  issue sent carries the summary and description of \<open>t\<close>. The summary is
  \<^verbatim>\<open>[ThreatPilot]\<close> and a space, followed by the action name with underscores replaced
  by spaces and upper-cased. When the request has a target, its rendering by
  \<^verbatim>\<open>JSON.stringify(target, null, 2)\<close> occurs verbatim in the description; when it has
  none, the description reads \<^verbatim>\<open>Target: undefined\<close>.
\<close>

theorem ticket_contents:
  assumes "get_prop req ''action'' = JStr a"
    and "a = ''rate_limit_ip'' \<or> a = ''add_waf_rule'' \<or> a = ''block_endpoint''"
    and "env w ''JIRA_BASE'' = Some base" and "base \<noteq> []"
    and "env w ''JIRA_MAIL'' = Some mail" and "mail \<noteq> []"
    and "env w ''JIRA_API'' = Some token" and "token \<noteq> []"
    and "env w ''JIRA_PROJECT'' = Some project" and "project \<noteq> []"
    and "ticket_of (JStr a) (get_prop req ''target'')
           (with_default (get_prop req ''severity'') (JStr ''medium'')) = Inr t"
  shows "fetches (fst (execute w req)) = [jira_request w t]
       \<and> body (jira_request w t)
           = JSON_stringify [] (jira_payload (JStr project) (summary t) (description t) (priority t))
       \<and> summary t = ''[ThreatPilot] '' @ toUpperCase (replaceAll_char (CHR ''_'') (CHR '' '') a)
       \<and> (get_prop req ''target'' \<noteq> JUndefined \<longrightarrow>
            (\<exists>r. JSON_stringify ''  '' (get_prop req ''target'') = Some r \<and> sublist r (description t)))
       \<and> (get_prop req ''target'' = JUndefined \<longrightarrow> sublist ''Target: undefined'' (description t))"
proof -
  note m = ticket_made[OF assms]
  have 1: "fetches (fst (execute w req)) = [jira_request w t]"
    by (rule m[THEN conjunct1])
  have 2: "body (jira_request w t)
           = JSON_stringify [] (jira_payload (JStr project) (summary t) (description t) (priority t))"
    by (rule m[THEN conjunct2, THEN conjunct1])
  have 3: "summary t = ''[ThreatPilot] '' @ toUpperCase (replaceAll_char (CHR ''_'') (CHR '' '') a)"
    by (rule ticket_of_contents[OF assms(11), THEN conjunct1])
  note d = description_contains_target[OF assms(11)]
  show ?thesis
    by (rule conjI[OF 1 conjI[OF 2 conjI[OF 3 d]]])
qed

theorem ticket_contents_witness:
  "ticket_of (JStr ''add_waf_rule'') (JObj [(''path'', JStr ''/login'')]) (JStr ''high'') = Inr waf_ticket
   \<and> fetches (fst (execute (example_world example_env (Resolves ticket_created)) waf_request))
       = [jira_request (example_world example_env (Resolves ticket_created)) waf_ticket]
   \<and> summary waf_ticket = ''[ThreatPilot] ADD WAF RULE''
   \<and> JSON_stringify ''  '' (JObj [(''path'', JStr ''/login'')])
       = Some (''{'' @ [NL] @ ''  '' @ [DQ] @ ''path'' @ [DQ] @ '': '' @ [DQ] @ ''/login'' @ [DQ] @ [NL] @ ''}'')
   \<and> sublist (''{'' @ [NL] @ ''  '' @ [DQ] @ ''path'' @ [DQ] @ '': '' @ [DQ] @ ''/login'' @ [DQ] @ [NL] @ ''}'')
         (description waf_ticket)"
proof -
  let ?w = "example_world example_env (Resolves ticket_created)"
  have e: "env ?w ''JIRA_BASE'' = Some ''https://jira.example''" "''https://jira.example'' \<noteq> []"
          "env ?w ''JIRA_MAIL'' = Some ''bot@example.com''" "''bot@example.com'' \<noteq> []"
          "env ?w ''JIRA_API'' = Some ''jira-token''" "''jira-token'' \<noteq> []"
          "env ?w ''JIRA_PROJECT'' = Some ''SEC''" "''SEC'' \<noteq> []"
    by (simp_all add: example_world_def example_env_def)
  have t1: "ticket_of (JStr ''add_waf_rule'') (JObj [(''path'', JStr ''/login'')]) (JStr ''high'') = Inr waf_ticket"
    by (simp add: ticket_of_eq waf_ticket_def toUpperCase_def replaceAll_char_def upper_char_def
          JSON_stringify_def template_opt_def quote_def quote_char_def)
  have a1: "get_prop waf_request ''action'' = JStr ''add_waf_rule''"
    by (simp add: waf_request_def lookup_prop_def)
  have k1: "ticket_of (JStr ''add_waf_rule'') (get_prop waf_request ''target'')
              (with_default (get_prop waf_request ''severity'') (JStr ''medium'')) = Inr waf_ticket"
    using t1 by (simp add: waf_request_def lookup_prop_def with_default_def)
  have g: "get_prop waf_request ''target'' = JObj [(''path'', JStr ''/login'')]"
    by (simp add: waf_request_def lookup_prop_def)
  have j: "JSON_stringify ''  '' (JObj [(''path'', JStr ''/login'')])
       = Some (''{'' @ [NL] @ ''  '' @ [DQ] @ ''path'' @ [DQ] @ '': '' @ [DQ] @ ''/login'' @ [DQ] @ [NL] @ ''}'')"
    by (simp add: JSON_stringify_def quote_def quote_char_def)
  note c = ticket_contents[OF a1 _ e k1]
  have f: "fetches (fst (execute ?w waf_request)) = [jira_request ?w waf_ticket]"
    using c by simp
  have s: "summary waf_ticket = ''[ThreatPilot] ADD WAF RULE''"
    by (simp add: waf_ticket_def)
  have b: "sublist (''{'' @ [NL] @ ''  '' @ [DQ] @ ''path'' @ [DQ] @ '': '' @ [DQ] @ ''/login'' @ [DQ] @ [NL] @ ''}'')
         (description waf_ticket)"
    using c g j by simp
  show ?thesis
    by (rule conjI[OF t1 conjI[OF f conjI[OF s conjI[OF j b]]]])
qed

text \<open>
  For \<^verbatim>\<open>add_waf_rule\<close> the summary sent is \<^verbatim>\<open>[ThreatPilot] ADD WAF RULE\<close>, which is not
  the transformed action name \<^verbatim>\<open>ADD WAF RULE\<close>; and for the severity
  \<^verbatim>\<open>{"toString": 1}\<close> no ticket is created at all: the answer is 500 with no call made.
\<close>

theorem ticket_summary_counterexample:
  "fetches (fst (execute (example_world example_env (Resolves ticket_created)) waf_request))
     = [jira_request (example_world example_env (Resolves ticket_created)) waf_ticket]
   \<and> summary waf_ticket = ''[ThreatPilot] ADD WAF RULE''
   \<and> toUpperCase (replaceAll_char (CHR ''_'') (CHR '' '') ''add_waf_rule'') = ''ADD WAF RULE''
   \<and> summary waf_ticket \<noteq> toUpperCase (replaceAll_char (CHR ''_'') (CHR '' '') ''add_waf_rule'')
   \<and> execute (example_world example_env (Resolves ticket_created)) waf_request_no_text =
       ([ConsoleError ([CHR 0xE2, CHR 0x9D, CHR 0x8C] @ '' Remediation error:'')
           (JStr ''Cannot convert object to primitive value'')],
        \<lparr>status = 500,
         json = JObj [(''status'', JStr ''error''),
                      (''message'', JStr ''Cannot convert object to primitive value'')]\<rparr>)"
proof -
  let ?w = "example_world example_env (Resolves ticket_created)"
  have e: "env ?w ''JIRA_BASE'' = Some ''https://jira.example''" "''https://jira.example'' \<noteq> []"
          "env ?w ''JIRA_MAIL'' = Some ''bot@example.com''" "''bot@example.com'' \<noteq> []"
          "env ?w ''JIRA_API'' = Some ''jira-token''" "''jira-token'' \<noteq> []"
          "env ?w ''JIRA_PROJECT'' = Some ''SEC''" "''SEC'' \<noteq> []"
    by (simp_all add: example_world_def example_env_def)
  have a1: "get_prop waf_request ''action'' = JStr ''add_waf_rule''"
    by (simp add: waf_request_def lookup_prop_def)
  have k1: "ticket_of (JStr ''add_waf_rule'') (get_prop waf_request ''target'')
              (with_default (get_prop waf_request ''severity'') (JStr ''medium'')) = Inr waf_ticket"
    by (simp add: ticket_of_eq waf_ticket_def toUpperCase_def replaceAll_char_def upper_char_def
          JSON_stringify_def template_opt_def quote_def quote_char_def waf_request_def lookup_prop_def
          with_default_def)
  have f: "fetches (fst (execute ?w waf_request)) = [jira_request ?w waf_ticket]"
    using ticketing_fetches[OF a1 _ e k1] by simp
  have s: "summary waf_ticket = ''[ThreatPilot] ADD WAF RULE''"
    by (simp add: waf_ticket_def)
  have u: "toUpperCase (replaceAll_char (CHR ''_'') (CHR '' '') ''add_waf_rule'') = ''ADD WAF RULE''"
    by (simp add: toUpperCase_def replaceAll_char_def upper_char_def)
  have n: "summary waf_ticket \<noteq> toUpperCase (replaceAll_char (CHR ''_'') (CHR '' '') ''add_waf_rule'')"
    unfolding s u by simp
  have a3: "get_prop waf_request_no_text ''action'' = JStr ''add_waf_rule''"
    by (simp add: waf_request_no_text_def lookup_prop_def)
  have k3: "ticket_of (JStr ''add_waf_rule'') (get_prop waf_request_no_text ''target'')
              (with_default (get_prop waf_request_no_text ''severity'') (JStr ''medium'')) = Inl cannot_convert"
    by (simp add: ticket_of_eq waf_request_no_text_def own_toString_def lookup_prop_def with_default_def)
  have x: "execute ?w waf_request_no_text =
       ([ConsoleError ([CHR 0xE2, CHR 0x9D, CHR 0x8C] @ '' Remediation error:'')
           (JStr ''Cannot convert object to primitive value'')],
        \<lparr>status = 500,
         json = JObj [(''status'', JStr ''error''),
                      (''message'', JStr ''Cannot convert object to primitive value'')]\<rparr>)"
    using ticketing_no_ticket[OF a3 _ k3, of ?w] by (simp add: cannot_convert_def)
  show ?thesis
    by (rule conjI[OF f conjI[OF s conjI[OF u conjI[OF n x]]]])
qed

subsection \<open>Alerts\<close>

text \<open>
  C7, as the code has it. A request with action \<^verbatim>\<open>alert_sre\<close>, threat \<^verbatim>\<open>SQLi\<close>,
  severity \<^verbatim>\<open>high\<close> and target \<^verbatim>\<open>api.example.com\<close>, served with the webhook configured,
  posts one chat message. The text of its first section contains \<^verbatim>\<open>SQLi\<close> and
  \<^verbatim>\<open>high\<close>. The route hands the client the request body itself as payload, so the
  recommended action printed is the action of the request: the text of the second
  section contains \<^verbatim>\<open>api.example.com\<close> and \<^verbatim>\<open>alert_sre\<close>, and does not contain
  \<^verbatim>\<open>block\<close>.
\<close>

theorem alert_sections:
  assumes "get_prop req ''action'' = JStr ''alert_sre''"
    and "get_prop req ''threat'' = JStr ''SQLi''"
    and "get_prop req ''severity'' = JStr ''high''"
    and "get_prop req ''target'' = JStr ''api.example.com''"
    and "env w ''SLACK_WEBHOOK_URL'' = Some hook" and "hook \<noteq> []"
  shows "slack_message req (clock w 0) = Inr (sqli_alert_message (clock w 0))
       \<and> fetches (fst (execute w req)) = [slack_request w (sqli_alert_message (clock w 0))]
       \<and> body (slack_request w (sqli_alert_message (clock w 0)))
           = JSON_stringify [] (sqli_alert_message (clock w 0))
       \<and> section_text (sqli_alert_message (clock w 0)) 0
           = JStr (''*Threat:* SQLi'' @ [NL] @ ''*Severity:* high'')
       \<and> section_text (sqli_alert_message (clock w 0)) 1
           = JStr (''*Target:* api.example.com'' @ [NL] @ ''*Recommended Action:* alert_sre'')
       \<and> section_contains (sqli_alert_message (clock w 0)) 0 ''SQLi''
       \<and> section_contains (sqli_alert_message (clock w 0)) 0 ''high''
       \<and> section_contains (sqli_alert_message (clock w 0)) 1 ''api.example.com''
       \<and> section_contains (sqli_alert_message (clock w 0)) 1 ''alert_sre''
       \<and> \<not> section_contains (sqli_alert_message (clock w 0)) 1 ''block''"
proof -
  let ?m = "sqli_alert_message (clock w 0)"
  have 1: "slack_message req (clock w 0) = Inr ?m"
    by (rule slack_message_sqli[OF assms(1-4)])
  have 2: "fetches (fst (execute w req)) = [slack_request w ?m]"
    by (rule alert_fetches[OF assms(1,5,6) 1])
  have 3: "body (slack_request w ?m) = JSON_stringify [] ?m"
    by (simp add: slack_request_def)
  have 6: "section_contains ?m 0 ''SQLi''"
    unfolding section_contains_def sqli_alert_sections by (simp add: sublist_code)
  have 7: "section_contains ?m 0 ''high''"
    unfolding section_contains_def sqli_alert_sections by (simp add: sublist_code)
  have 8: "section_contains ?m 1 ''api.example.com''"
    unfolding section_contains_def sqli_alert_sections by (simp add: sublist_code)
  have 9: "section_contains ?m 1 ''alert_sre''"
    unfolding section_contains_def sqli_alert_sections by (simp add: sublist_code)
  have 10: "\<not> section_contains ?m 1 ''block''"
    unfolding section_contains_def sqli_alert_sections by (simp add: sublist_code)
  show ?thesis
    by (rule conjI[OF 1 conjI[OF 2 conjI[OF 3 conjI[OF sqli_alert_sections(1) conjI[OF sqli_alert_sections(2)
          conjI[OF 6 conjI[OF 7 conjI[OF 8 conjI[OF 9 10]]]]]]]]])
qed

theorem alert_sections_witness:
  "fetches (fst (execute (example_world example_env (Resolves webhook_ok)) alert_request))
     = [slack_request (example_world example_env (Resolves webhook_ok))
          (sqli_alert_message ''2024-01-01T00:00:00.000Z'')]
   \<and> section_text (sqli_alert_message ''2024-01-01T00:00:00.000Z'') 1
       = JStr (''*Target:* api.example.com'' @ [NL] @ ''*Recommended Action:* alert_sre'')
   \<and> section_contains (sqli_alert_message ''2024-01-01T00:00:00.000Z'') 0 ''SQLi''
   \<and> section_contains (sqli_alert_message ''2024-01-01T00:00:00.000Z'') 0 ''high''
   \<and> section_contains (sqli_alert_message ''2024-01-01T00:00:00.000Z'') 1 ''api.example.com''
   \<and> section_contains (sqli_alert_message ''2024-01-01T00:00:00.000Z'') 1 ''alert_sre''"
  using alert_sections[of alert_request "example_world example_env (Resolves webhook_ok)" "''https://hooks.example/T1''"]
  by (simp add: example_world_def example_env_def alert_request_def lookup_prop_def)

text \<open>
  The request above posts a message whose second section does not contain \<^verbatim>\<open>block\<close>;
  and the payload \<^verbatim>\<open>{threat: "SQLi", severity: "high", target: "api.example.com",
  action: "block"}\<close> sent as a request is answered 400 \<^verbatim>\<open>ignored\<close>, with no message
  posted.
\<close>

theorem alert_sections_counterexample:
  "fetches (fst (execute (example_world example_env (Resolves webhook_ok)) alert_request))
     = [slack_request (example_world example_env (Resolves webhook_ok))
          (sqli_alert_message ''2024-01-01T00:00:00.000Z'')]
   \<and> section_text (sqli_alert_message ''2024-01-01T00:00:00.000Z'') 1
       = JStr (''*Target:* api.example.com'' @ [NL] @ ''*Recommended Action:* alert_sre'')
   \<and> \<not> section_contains (sqli_alert_message ''2024-01-01T00:00:00.000Z'') 1 ''block''
   \<and> execute (example_world example_env (Resolves webhook_ok)) sqli_payload =
       ([], \<lparr>status = 400,
             json = JObj [(''status'', JStr ''ignored''), (''message'', JStr ''Unsupported action'')]\<rparr>)"
proof -
  let ?w = "example_world example_env (Resolves webhook_ok)"
  have a: "get_prop alert_request ''action'' = JStr ''alert_sre''"
          "get_prop alert_request ''threat'' = JStr ''SQLi''"
          "get_prop alert_request ''severity'' = JStr ''high''"
          "get_prop alert_request ''target'' = JStr ''api.example.com''"
    by (simp_all add: alert_request_def lookup_prop_def)
  have e: "env ?w ''SLACK_WEBHOOK_URL'' = Some ''https://hooks.example/T1''" "''https://hooks.example/T1'' \<noteq> []"
    by (simp_all add: example_world_def example_env_def)
  have c: "clock ?w 0 = ''2024-01-01T00:00:00.000Z''"
    by (simp add: example_world_def)
  have 1: "fetches (fst (execute ?w alert_request)) = [slack_request ?w (sqli_alert_message ''2024-01-01T00:00:00.000Z'')]"
    using alert_fetches[OF a(1) e slack_message_sqli[OF a]] c by simp
  have 3: "\<not> section_contains (sqli_alert_message ''2024-01-01T00:00:00.000Z'') 1 ''block''"
    unfolding section_contains_def sqli_alert_sections by (simp add: sublist_code)
  have 4: "execute ?w sqli_payload =
       ([], \<lparr>status = 400,
             json = JObj [(''status'', JStr ''ignored''), (''message'', JStr ''Unsupported action'')]\<rparr>)"
    by (simp add: execute_def try_block_def sqli_payload_def lookup_prop_def Let_def)
  show ?thesis
    by (rule conjI[OF 1 conjI[OF sqli_alert_sections(2) conjI[OF 3 4]]])
qed

text \<open>
  C8, as the code has it. For a request with action \<^verbatim>\<open>alert_sre\<close>, served with the
  webhook configured: when the message is built, the client looks at neither the status
  nor the body of the webhook's answer, so whenever \<^verbatim>\<open>fetch\<close> resolves, with any HTTP
  status, the only effect is the call and the answer is 200 with status \<^verbatim>\<open>success\<close>;
  only a rejected \<^verbatim>\<open>fetch\<close> (a network-level failure) is thrown, logged by the route
  and answered 500 with its message. When the message cannot be built (a field has no
  text) no call is made and the answer is 500.
\<close>

theorem alert_sre_outcome:
  assumes "get_prop req ''action'' = JStr ''alert_sre''"
    and "env w ''SLACK_WEBHOOK_URL'' = Some hook" and "hook \<noteq> []"
  shows "(\<forall>msg res. slack_message req (clock w 0) = Inr msg \<and> fetch w (slack_request w msg) = Resolves res \<longrightarrow>
            execute w req =
              ([Fetch (slack_request w msg)],
               \<lparr>status = 200,
                json = JObj [(''status'', JStr ''success''),
                             (''action_taken'', JStr ''alert_sre''),
                             (''method'', JStr ''slack_notification''),
                             (''message'', JStr ''SRE alerted via Slack''),
                             (''executed_at'', JStr (clock w 1))]\<rparr>))
       \<and> (\<forall>msg e. slack_message req (clock w 0) = Inr msg \<and> fetch w (slack_request w msg) = Rejects e \<longrightarrow>
            execute w req =
              ([Fetch (slack_request w msg),
                ConsoleError ([CHR 0xE2, CHR 0x9D, CHR 0x8C] @ '' Remediation error:'') (JStr (message e))],
               \<lparr>status = 500,
                json = JObj [(''status'', JStr ''error''), (''message'', JStr (message e))]\<rparr>))
       \<and> (\<forall>e. slack_message req (clock w 0) = Inl e \<longrightarrow>
            execute w req =
              ([ConsoleError ([CHR 0xE2, CHR 0x9D, CHR 0x8C] @ '' Remediation error:'') (JStr (message e))],
               \<lparr>status = 500,
                json = JObj [(''status'', JStr ''error''), (''message'', JStr (message e))]\<rparr>))"
  by (simp add: execute_def try_block_alert[OF assms(1)] alertSRESlack_configured[OF assms(2,3)])

theorem alert_sre_outcome_witness:
  "execute (example_world example_env (Resolves webhook_ok)) alert_request =
      ([Fetch (slack_request (example_world example_env (Resolves webhook_ok))
                 (sqli_alert_message ''2024-01-01T00:00:00.000Z''))],
       \<lparr>status = 200,
        json = JObj [(''status'', JStr ''success''),
                     (''action_taken'', JStr ''alert_sre''),
                     (''method'', JStr ''slack_notification''),
                     (''message'', JStr ''SRE alerted via Slack''),
                     (''executed_at'', JStr ''2024-01-01T00:00:01.000Z'')]\<rparr>)
   \<and> execute (example_world example_env (Rejects (FetchError ''connect ECONNREFUSED''))) alert_request =
      ([Fetch (slack_request (example_world example_env (Rejects (FetchError ''connect ECONNREFUSED'')))
                 (sqli_alert_message ''2024-01-01T00:00:00.000Z'')),
        ConsoleError ([CHR 0xE2, CHR 0x9D, CHR 0x8C] @ '' Remediation error:'') (JStr ''connect ECONNREFUSED'')],
       \<lparr>status = 500,
        json = JObj [(''status'', JStr ''error''), (''message'', JStr ''connect ECONNREFUSED'')]\<rparr>)
   \<and> execute (example_world example_env (Resolves webhook_ok)) alert_request_no_text =
      ([ConsoleError ([CHR 0xE2, CHR 0x9D, CHR 0x8C] @ '' Remediation error:'')
          (JStr ''Cannot convert object to primitive value'')],
       \<lparr>status = 500,
        json = JObj [(''status'', JStr ''error''),
                     (''message'', JStr ''Cannot convert object to primitive value'')]\<rparr>)"
proof -
  let ?ok = "example_world example_env (Resolves webhook_ok)"
  let ?down = "example_world example_env (Rejects (FetchError ''connect ECONNREFUSED''))"
  let ?ts = "''2024-01-01T00:00:00.000Z''"
  have a: "get_prop alert_request ''action'' = JStr ''alert_sre''"
          "get_prop alert_request ''threat'' = JStr ''SQLi''"
          "get_prop alert_request ''severity'' = JStr ''high''"
          "get_prop alert_request ''target'' = JStr ''api.example.com''"
    by (simp_all add: alert_request_def lookup_prop_def)
  have a3: "get_prop alert_request_no_text ''action'' = JStr ''alert_sre''"
    by (simp add: alert_request_no_text_def lookup_prop_def)
  have e1: "env ?ok ''SLACK_WEBHOOK_URL'' = Some ''https://hooks.example/T1''"
    and e2: "env ?down ''SLACK_WEBHOOK_URL'' = Some ''https://hooks.example/T1''"
    and ne: "''https://hooks.example/T1'' \<noteq> []"
    by (simp_all add: example_world_def example_env_def)
  have m1: "slack_message alert_request (clock ?ok 0) = Inr (sqli_alert_message ?ts)"
    using slack_message_sqli[OF a, of "clock ?ok 0"] by (simp add: example_world_def)
  have m2: "slack_message alert_request (clock ?down 0) = Inr (sqli_alert_message ?ts)"
    using slack_message_sqli[OF a, of "clock ?down 0"] by (simp add: example_world_def)
  have m3: "slack_message alert_request_no_text (clock ?ok 0) = Inl cannot_convert"
    by (simp add: slack_message_def alert_request_no_text_def own_toString_def lookup_prop_def
          template_def or_else_def)
  have f1: "fetch ?ok (slack_request ?ok (sqli_alert_message ?ts)) = Resolves webhook_ok"
    by (simp add: example_world_def)
  have f2: "fetch ?down (slack_request ?down (sqli_alert_message ?ts)) = Rejects (FetchError ''connect ECONNREFUSED'')"
    by (simp add: example_world_def)
  have 1: "execute ?ok alert_request =
      ([Fetch (slack_request ?ok (sqli_alert_message ?ts))],
       \<lparr>status = 200,
        json = JObj [(''status'', JStr ''success''),
                     (''action_taken'', JStr ''alert_sre''),
                     (''method'', JStr ''slack_notification''),
                     (''message'', JStr ''SRE alerted via Slack''),
                     (''executed_at'', JStr ''2024-01-01T00:00:01.000Z'')]\<rparr>)"
    using alert_sre_outcome[OF a(1) e1 ne, THEN conjunct1, rule_format, OF conjI[OF m1 f1]]
    by (simp add: example_world_def)
  have 2: "execute ?down alert_request =
      ([Fetch (slack_request ?down (sqli_alert_message ?ts)),
        ConsoleError ([CHR 0xE2, CHR 0x9D, CHR 0x8C] @ '' Remediation error:'') (JStr ''connect ECONNREFUSED'')],
       \<lparr>status = 500,
        json = JObj [(''status'', JStr ''error''), (''message'', JStr ''connect ECONNREFUSED'')]\<rparr>)"
    using alert_sre_outcome[OF a(1) e2 ne, THEN conjunct2, THEN conjunct1, rule_format, OF conjI[OF m2 f2]]
    by simp
  have 3: "execute ?ok alert_request_no_text =
      ([ConsoleError ([CHR 0xE2, CHR 0x9D, CHR 0x8C] @ '' Remediation error:'')
          (JStr ''Cannot convert object to primitive value'')],
       \<lparr>status = 500,
        json = JObj [(''status'', JStr ''error''),
                     (''message'', JStr ''Cannot convert object to primitive value'')]\<rparr>)"
    using alert_sre_outcome[OF a3 e1 ne, THEN conjunct2, THEN conjunct2, rule_format, OF m3]
    by (simp add: cannot_convert_def)
  show ?thesis
    by (rule conjI[OF 1 conjI[OF 2 3]])
qed

text \<open>
  The webhook answers 404 with a body that is not JSON, a failure that is not at network
  level. Nothing is thrown: the request is answered 200 with status \<^verbatim>\<open>success\<close>.
\<close>

theorem webhook_failure_counterexample:
  "res_status webhook_failure = 404
   \<and> \<not> res_ok webhook_failure
   \<and> execute (example_world example_env (Resolves webhook_failure)) alert_request =
      ([Fetch (slack_request (example_world example_env (Resolves webhook_failure))
                 (sqli_alert_message ''2024-01-01T00:00:00.000Z''))],
       \<lparr>status = 200,
        json = JObj [(''status'', JStr ''success''),
                     (''action_taken'', JStr ''alert_sre''),
                     (''method'', JStr ''slack_notification''),
                     (''message'', JStr ''SRE alerted via Slack''),
                     (''executed_at'', JStr ''2024-01-01T00:00:01.000Z'')]\<rparr>)"
proof -
  let ?w = "example_world example_env (Resolves webhook_failure)"
  have a: "get_prop alert_request ''action'' = JStr ''alert_sre''"
          "get_prop alert_request ''threat'' = JStr ''SQLi''"
          "get_prop alert_request ''severity'' = JStr ''high''"
          "get_prop alert_request ''target'' = JStr ''api.example.com''"
    by (simp_all add: alert_request_def lookup_prop_def)
  have e: "env ?w ''SLACK_WEBHOOK_URL'' = Some ''https://hooks.example/T1''" "''https://hooks.example/T1'' \<noteq> []"
    by (simp_all add: example_world_def example_env_def)
  have m: "slack_message alert_request (clock ?w 0) = Inr (sqli_alert_message ''2024-01-01T00:00:00.000Z'')"
    using slack_message_sqli[OF a, of "clock ?w 0"] by (simp add: example_world_def)
  have f: "fetch ?w (slack_request ?w (sqli_alert_message ''2024-01-01T00:00:00.000Z'')) = Resolves webhook_failure"
    by (simp add: example_world_def)
  have c: "clock ?w 1 = ''2024-01-01T00:00:01.000Z''"
    by (simp add: example_world_def)
  have 1: "res_status webhook_failure = 404" and 2: "\<not> res_ok webhook_failure"
    by (simp_all add: webhook_failure_def res_ok_def)
  have 3: "execute ?w alert_request =
      ([Fetch (slack_request ?w (sqli_alert_message ''2024-01-01T00:00:00.000Z''))],
       \<lparr>status = 200,
        json = JObj [(''status'', JStr ''success''),
                     (''action_taken'', JStr ''alert_sre''),
                     (''method'', JStr ''slack_notification''),
                     (''message'', JStr ''SRE alerted via Slack''),
                     (''executed_at'', JStr ''2024-01-01T00:00:01.000Z'')]\<rparr>)"
    by (simp add: execute_def try_block_alert[OF a(1)] alertSRESlack_configured[OF e] m f c del: One_nat_def)
  show ?thesis
    by (rule conjI[OF 1 conjI[OF 2 3]])
qed

end
